theory Spec2Isabelle
  imports Complex_Main
begin

section \<open>Python values\<close>

text \<open>
  A Python float is modelled by its value: a real number, one of the two infinities, or
  NaN. Rounding is not modelled. The programs below only compare their inputs, add or
  subtract a constant from a bound, and subtract 5, 10, 15 or 20 from 100; the comparisons
  follow IEEE 754 (every comparison with NaN is false).
\<close>

datatype pyfloat = NaN | NInf | Fin real | PInf

fun fle :: "pyfloat \<Rightarrow> pyfloat \<Rightarrow> bool" where
  "fle NaN y = False"
| "fle x NaN = False"
| "fle NInf y = True"
| "fle x PInf = True"
| "fle (Fin a) (Fin b) = (a \<le> b)"
| "fle x y = False"

fun flt :: "pyfloat \<Rightarrow> pyfloat \<Rightarrow> bool" where
  "flt NaN y = False"
| "flt x NaN = False"
| "flt NInf NInf = False"
| "flt NInf y = True"
| "flt PInf y = False"
| "flt (Fin a) (Fin b) = (a < b)"
| "flt (Fin a) PInf = True"
| "flt (Fin a) NInf = False"

definition fge :: "pyfloat \<Rightarrow> pyfloat \<Rightarrow> bool" where
  "fge x y = fle y x"

definition fgt :: "pyfloat \<Rightarrow> pyfloat \<Rightarrow> bool" where
  "fgt x y = flt y x"

fun fneg :: "pyfloat \<Rightarrow> pyfloat" where
  "fneg NaN = NaN"
| "fneg NInf = PInf"
| "fneg PInf = NInf"
| "fneg (Fin a) = Fin (- a)"

fun fadd :: "pyfloat \<Rightarrow> pyfloat \<Rightarrow> pyfloat" where
  "fadd NaN y = NaN"
| "fadd x NaN = NaN"
| "fadd PInf NInf = NaN"
| "fadd NInf PInf = NaN"
| "fadd PInf y = PInf"
| "fadd x PInf = PInf"
| "fadd NInf y = NInf"
| "fadd x NInf = NInf"
| "fadd (Fin a) (Fin b) = Fin (a + b)"

definition fsub :: "pyfloat \<Rightarrow> pyfloat \<Rightarrow> pyfloat" where
  "fsub x y = fadd x (fneg y)"

fun fabs :: "pyfloat \<Rightarrow> pyfloat" where
  "fabs NaN = NaN"
| "fabs NInf = PInf"
| "fabs PInf = PInf"
| "fabs (Fin a) = Fin \<bar>a\<bar>"

text \<open>
  Exceptions are values. \<open>KeyError\<close> carries the missing key, \<open>ValueError\<close> its
  message, and \<open>ExternalError\<close> the message of an exception raised inside a library
  (pandas, SQLAlchemy, Redis, psutil). \<open>str_exc\<close> is Python's \<open>str(e)\<close>: the
  message, and for a \<open>KeyError\<close> the key in single quotes.
\<close>

datatype py_exception = ValueError string | KeyError string | ExternalError string

fun str_exc :: "py_exception \<Rightarrow> string" where
  "str_exc (ValueError m) = m"
| "str_exc (KeyError k) = [CHR 0x27] @ k @ [CHR 0x27]"
| "str_exc (ExternalError m) = m"

definition bindE :: "'e + 'a \<Rightarrow> ('a \<Rightarrow> 'e + 'b) \<Rightarrow> 'e + 'b" where
  "bindE m f = (case m of Inl e \<Rightarrow> Inl e | Inr x \<Rightarrow> f x)"

text \<open>\<open>d[k]\<close> on a dictionary: the value, or \<open>KeyError\<close>.\<close>

definition lookup :: "(string \<rightharpoonup> 'v) \<Rightarrow> string \<Rightarrow> py_exception + 'v" where
  "lookup d k = (case d k of None \<Rightarrow> Inl (KeyError k) | Some v \<Rightarrow> Inr v)"

text \<open>Applying a function that may raise to every row, in order, up to the first exception.\<close>

fun mapE :: "('a \<Rightarrow> 'e + 'b) \<Rightarrow> 'a list \<Rightarrow> 'e + 'b list" where
  "mapE f [] = Inr []"
| "mapE f (x # xs) = bindE (f x) (\<lambda>y. bindE (mapE f xs) (\<lambda>ys. Inr (y # ys)))"

definition endswith :: "string \<Rightarrow> string \<Rightarrow> bool" where
  "endswith s suf = (length suf \<le> length s \<and> drop (length s - length suf) s = suf)"

section \<open>Data model\<close>

text \<open>
  \<open>ETLConfig.business_rules\<close> is a \<open>Dict[str, Dict[str, float]]\<close>. A data frame is
  the list of its rows; every frame has the four measurement columns, and a cell may hold
  NaN. The identity columns are never read by the functions modelled here.
\<close>

type_synonym rule = "string \<rightharpoonup> pyfloat"
type_synonym business_rules = "string \<rightharpoonup> rule"

record row =
  batch_id :: string
  sample_id :: string
  moisture :: pyfloat
  ph :: pyfloat
  diastase_activity :: pyfloat
  h_m_f :: pyfloat

record scored_row = row +
  quality_score :: real
  quality_category :: string
  processed_at :: real

text \<open>The built-in rules of \<open>IndustrialETLProcessor._load_config\<close>.\<close>

definition default_business_rules :: business_rules where
  "default_business_rules =
     [''moisture'' \<mapsto> [''min'' \<mapsto> Fin 15.0, ''max'' \<mapsto> Fin 20.0],
      ''ph'' \<mapsto> [''min'' \<mapsto> Fin 3.5, ''max'' \<mapsto> Fin 6.5],
      ''diastase_activity'' \<mapsto> [''min'' \<mapsto> Fin 8.0],
      ''h_m_f'' \<mapsto> [''max'' \<mapsto> Fin 40.0]]"

section \<open>IndustrialETLProcessor: validation, scoring, categories\<close>

text \<open>\<open>_apply_business_rules\<close>: the four filters, in the source's order.\<close>

definition moisture_validation :: "business_rules \<Rightarrow> row list \<Rightarrow> py_exception + row list" where
  "moisture_validation rules data =
     (case rules ''moisture'' of
        None \<Rightarrow> Inr data
      | Some rule \<Rightarrow>
          bindE (lookup rule ''min'') (\<lambda>min_val.
          bindE (lookup rule ''max'') (\<lambda>max_val.
            Inr (filter (\<lambda>r. fge (moisture r) min_val \<and> fle (moisture r) max_val) data))))"

definition ph_validation :: "business_rules \<Rightarrow> row list \<Rightarrow> py_exception + row list" where
  "ph_validation rules data =
     (case rules ''ph'' of
        None \<Rightarrow> Inr data
      | Some rule \<Rightarrow>
          bindE (lookup rule ''min'') (\<lambda>min_val.
          bindE (lookup rule ''max'') (\<lambda>max_val.
            Inr (filter (\<lambda>r. fge (ph r) min_val \<and> fle (ph r) max_val) data))))"

definition diastase_validation :: "business_rules \<Rightarrow> row list \<Rightarrow> py_exception + row list" where
  "diastase_validation rules data =
     (case rules ''diastase_activity'' of
        None \<Rightarrow> Inr data
      | Some rule \<Rightarrow>
          bindE (lookup rule ''min'') (\<lambda>min_val.
            Inr (filter (\<lambda>r. fge (diastase_activity r) min_val) data)))"

definition hmf_validation :: "business_rules \<Rightarrow> row list \<Rightarrow> py_exception + row list" where
  "hmf_validation rules data =
     (case rules ''h_m_f'' of
        None \<Rightarrow> Inr data
      | Some rule \<Rightarrow>
          bindE (lookup rule ''max'') (\<lambda>max_val.
            Inr (filter (\<lambda>r. fle (h_m_f r) max_val) data)))"

definition apply_business_rules :: "business_rules \<Rightarrow> row list \<Rightarrow> py_exception + row list" where
  "apply_business_rules rules data =
     bindE (moisture_validation rules data) (\<lambda>data.
     bindE (ph_validation rules data) (\<lambda>data.
     bindE (diastase_validation rules data) (\<lambda>data.
       hmf_validation rules data)))"

text \<open>
  \<open>_calculate_quality_score\<close> of the ETL processor: the running score goes through the
  four blocks in the source's order; each block is skipped when its parameter has no rule.
\<close>

definition moisture_scoring :: "business_rules \<Rightarrow> row \<Rightarrow> real \<Rightarrow> py_exception + real" where
  "moisture_scoring rules r score =
     (case rules ''moisture'' of
        None \<Rightarrow> Inr score
      | Some rule \<Rightarrow>
          bindE (lookup rule ''min'') (\<lambda>min_val.
          bindE (lookup rule ''max'') (\<lambda>max_val.
            if fle min_val (moisture r) \<and> fle (moisture r) max_val then Inr (score - 0)
            else if fle (fsub min_val (Fin 1)) (moisture r)
                    \<and> fle (moisture r) (fadd max_val (Fin 1)) then Inr (score - 5)
            else Inr (score - 15))))"

definition ph_scoring :: "business_rules \<Rightarrow> row \<Rightarrow> real \<Rightarrow> py_exception + real" where
  "ph_scoring rules r score =
     (case rules ''ph'' of
        None \<Rightarrow> Inr score
      | Some rule \<Rightarrow>
          bindE (lookup rule ''min'') (\<lambda>min_val.
          bindE (lookup rule ''max'') (\<lambda>max_val.
            if fle min_val (ph r) \<and> fle (ph r) max_val then Inr (score - 0)
            else if fle (fsub min_val (Fin 0.5)) (ph r)
                    \<and> fle (ph r) (fadd max_val (Fin 0.5)) then Inr (score - 5)
            else Inr (score - 15))))"

definition diastase_scoring :: "business_rules \<Rightarrow> row \<Rightarrow> real \<Rightarrow> py_exception + real" where
  "diastase_scoring rules r score =
     (case rules ''diastase_activity'' of
        None \<Rightarrow> Inr score
      | Some rule \<Rightarrow>
          bindE (lookup rule ''min'') (\<lambda>min_val.
            if fge (diastase_activity r) min_val then Inr (score - 0)
            else if fge (diastase_activity r) (fsub min_val (Fin 2)) then Inr (score - 5)
            else Inr (score - 15)))"

definition hmf_scoring :: "business_rules \<Rightarrow> row \<Rightarrow> real \<Rightarrow> py_exception + real" where
  "hmf_scoring rules r score =
     (case rules ''h_m_f'' of
        None \<Rightarrow> Inr score
      | Some rule \<Rightarrow>
          bindE (lookup rule ''max'') (\<lambda>max_val.
            if fle (h_m_f r) max_val then Inr (score - 0)
            else if fle (h_m_f r) (fadd max_val (Fin 10)) then Inr (score - 5)
            else Inr (score - 15)))"

text \<open>The score before the final \<open>max(0.0, score)\<close>.\<close>

definition etl_unclamped_score :: "business_rules \<Rightarrow> row \<Rightarrow> py_exception + real" where
  "etl_unclamped_score rules r =
     bindE (moisture_scoring rules r 100.0) (\<lambda>score.
     bindE (ph_scoring rules r score) (\<lambda>score.
     bindE (diastase_scoring rules r score) (\<lambda>score.
       hmf_scoring rules r score)))"

definition etl_calculate_quality_score :: "business_rules \<Rightarrow> row \<Rightarrow> py_exception + real" where
  "etl_calculate_quality_score rules r =
     bindE (etl_unclamped_score rules r) (\<lambda>score. Inr (max 0.0 score))"

definition etl_categorize_quality :: "pyfloat \<Rightarrow> string" where
  "etl_categorize_quality score =
     (if fge score (Fin 90) then ''Excellent''
      else if fge score (Fin 80) then ''Good''
      else if fge score (Fin 70) then ''Fair''
      else ''Poor'')"

section \<open>UnifiedPowerBIGenerator: scoring, categories, compliance\<close>

definition unified_unclamped_score :: "row \<Rightarrow> real" where
  "unified_unclamped_score r =
     (let score = 100.0;
          moisture_dev = fabs (fsub (moisture r) (Fin 17.5));
          score = (if fle moisture_dev (Fin 1.0) then score - 0
                   else if fle moisture_dev (Fin 2.0) then score - 5
                   else if fle moisture_dev (Fin 3.0) then score - 10
                   else score - 20);
          ph_dev = fabs (fsub (ph r) (Fin 5.0));
          score = (if fle ph_dev (Fin 0.5) then score - 0
                   else if fle ph_dev (Fin 1.0) then score - 5
                   else if fle ph_dev (Fin 1.5) then score - 10
                   else score - 20);
          score = (if fge (diastase_activity r) (Fin 8.0) then score - 0
                   else if fge (diastase_activity r) (Fin 6.0) then score - 5
                   else score - 15);
          score = (if fle (h_m_f r) (Fin 40.0) then score - 0
                   else if fle (h_m_f r) (Fin 50.0) then score - 5
                   else score - 15)
      in score)"

definition unified_calculate_quality_score :: "row \<Rightarrow> real" where
  "unified_calculate_quality_score r = max 0.0 (unified_unclamped_score r)"

definition unified_categorize_quality :: "pyfloat \<Rightarrow> string" where
  "unified_categorize_quality score =
     (if fge score (Fin 95) then ''Premium''
      else if fge score (Fin 90) then ''Excellent''
      else if fge score (Fin 80) then ''Good''
      else if fge score (Fin 70) then ''Fair''
      else ''Poor'')"

definition get_compliance_status :: "pyfloat \<Rightarrow> string" where
  "get_compliance_status score =
     (if fge score (Fin 80) then ''Compliant''
      else if fge score (Fin 70) then ''Warning''
      else ''Non-Compliant'')"

section \<open>IndustrialETLProcessor: the pipeline\<close>

text \<open>
  What a run reads from outside the process: the two pandas readers (a frame, or the
  exception the reader raises) and the three readings of \<open>datetime.now()\<close> a run makes,
  in seconds. A timestamp is represented by its reading, a \<open>timedelta\<close> by the
  difference of two readings.
\<close>

record environment =
  read_csv :: "string \<Rightarrow> py_exception + row list"
  read_excel :: "string \<Rightarrow> py_exception + row list"
  now_start :: real
  now_processed :: real
  now_end :: real

text \<open>
  The state of the processor that the pipeline reads. \<open>db_engine\<close> is \<open>None\<close> when
  the database libraries are absent or the engine could not be created; otherwise it
  answers \<open>to_sql\<close> with the exception raised, if any. \<open>redis_client\<close> likewise
  answers \<open>setex\<close> for a cache key. What the database and the log receive is not
  modelled.
\<close>

record processor =
  business_rules :: business_rules
  db_engine :: "(string \<Rightarrow> scored_row list \<Rightarrow> py_exception option) option"
  redis_client :: "(string \<Rightarrow> py_exception option) option"

record etl_result =
  status :: string
  error :: "string option"
  duration_seconds :: real
  rows_processed :: "nat option"
  source_path :: "string option"
  target_table :: "string option"
  timestamp :: real

definition extract_data :: "environment \<Rightarrow> string \<Rightarrow> py_exception + row list" where
  "extract_data env path =
     (if endswith path ''.csv'' then read_csv env path
      else if endswith path ''.xlsx'' then read_excel env path
      else Inl (ValueError (''Unsupported file format: '' @ path)))"

definition dropna :: "row list \<Rightarrow> row list" where
  "dropna data =
     filter (\<lambda>r. moisture r \<noteq> NaN \<and> ph r \<noteq> NaN \<and> diastase_activity r \<noteq> NaN \<and> h_m_f r \<noteq> NaN) data"

definition add_columns :: "real \<Rightarrow> row \<Rightarrow> real \<Rightarrow> scored_row" where
  "add_columns now r score =
     row.extend r (scored_row.fields score (etl_categorize_quality (Fin score)) now)"

definition transform_data :: "processor \<Rightarrow> real \<Rightarrow> row list \<Rightarrow> py_exception + scored_row list" where
  "transform_data p now data =
     (let data = dropna data in
      bindE (apply_business_rules (business_rules p) data) (\<lambda>data.
      bindE (mapE (etl_calculate_quality_score (business_rules p)) data) (\<lambda>scores.
        Inr (map2 (add_columns now) data scores))))"

definition load_data :: "processor \<Rightarrow> scored_row list \<Rightarrow> string \<Rightarrow> bool" where
  "load_data p data table_name =
     (case db_engine p of
        None \<Rightarrow> False
      | Some to_sql \<Rightarrow>
          (case to_sql table_name data of
             Some e \<Rightarrow> False
           | None \<Rightarrow>
               (case redis_client p of
                  None \<Rightarrow> True
                | Some setex \<Rightarrow>
                    (case setex (''table_metadata:'' @ table_name) of
                       Some e \<Rightarrow> False
                     | None \<Rightarrow> True))))"

definition run_etl_pipeline :: "environment \<Rightarrow> processor \<Rightarrow> string \<Rightarrow> string \<Rightarrow> etl_result" where
  "run_etl_pipeline env p path table_name =
     (let start_time = now_start env in
      case bindE (extract_data env path) (\<lambda>data.
           bindE (transform_data p (now_processed env) data) (\<lambda>transformed_data.
             Inr (transformed_data, load_data p transformed_data table_name))) of
        Inr (transformed_data, load_success) \<Rightarrow>
          (let end_time = now_end env; duration = end_time - start_time in
           \<lparr>status = (if load_success then ''success'' else ''failed''),
            error = None,
            duration_seconds = duration,
            rows_processed = Some (length transformed_data),
            source_path = Some path,
            target_table = Some table_name,
            timestamp = end_time\<rparr>)
      | Inl e \<Rightarrow>
          (let end_time = now_end env; duration = end_time - start_time in
           \<lparr>status = ''failed'',
            error = Some (str_exc e),
            duration_seconds = duration,
            rows_processed = None,
            source_path = None,
            target_table = None,
            timestamp = end_time\<rparr>))"

section \<open>MonitoringSystem: performance alerts\<close>

text \<open>
  An alert dictionary. The formatted message is represented by its fixed text and the
  reading it prints. The two psutil readings are the value returned or the exception
  raised; \<open>t_cpu\<close> and \<open>t_memory\<close> are the clock readings taken when an alert is built.
\<close>

record alert =
  alert_type :: string
  severity :: string
  message :: "string \<times> pyfloat"
  alert_timestamp :: real

definition check_performance_alerts ::
    "bool \<Rightarrow> (py_exception + pyfloat) \<Rightarrow> (py_exception + pyfloat) \<Rightarrow> real \<Rightarrow> real \<Rightarrow> alert list" where
  "check_performance_alerts psutil_available cpu_reading memory_reading t_cpu t_memory =
     (let alerts = [] in
      if psutil_available then
        (case cpu_reading of
           Inl e \<Rightarrow> alerts
         | Inr cpu_percent \<Rightarrow>
             (let alerts = (if fgt cpu_percent (Fin 80)
                            then alerts @ [\<lparr>alert_type = ''performance_degradation'',
                                            severity = ''warning'',
                                            message = (''High CPU usage: '', cpu_percent),
                                            alert_timestamp = t_cpu\<rparr>]
                            else alerts)
              in case memory_reading of
                   Inl e \<Rightarrow> alerts
                 | Inr memory_percent \<Rightarrow>
                     (if fgt memory_percent (Fin 85)
                      then alerts @ [\<lparr>alert_type = ''performance_degradation'',
                                      severity = ''warning'',
                                      message = (''High memory usage: '', memory_percent),
                                      alert_timestamp = t_memory\<rparr>]
                      else alerts)))
      else alerts)"

section \<open>Well-formed rules and sample inputs\<close>

text \<open>
  A rule dictionary is complete when every rule that is present has the keys the code
  reads from it; with an incomplete one the code raises \<open>KeyError\<close>.
\<close>

definition rules_complete :: "business_rules \<Rightarrow> bool" where
  "rules_complete rules =
     ((case rules ''moisture'' of
         None \<Rightarrow> True
       | Some rule \<Rightarrow> rule ''min'' \<noteq> None \<and> rule ''max'' \<noteq> None)
      \<and> (case rules ''ph'' of
            None \<Rightarrow> True
          | Some rule \<Rightarrow> rule ''min'' \<noteq> None \<and> rule ''max'' \<noteq> None)
      \<and> (case rules ''diastase_activity'' of
            None \<Rightarrow> True
          | Some rule \<Rightarrow> rule ''min'' \<noteq> None)
      \<and> (case rules ''h_m_f'' of
            None \<Rightarrow> True
          | Some rule \<Rightarrow> rule ''max'' \<noteq> None))"

text \<open>A sample with the given measurements.\<close>

definition sample :: "pyfloat \<Rightarrow> pyfloat \<Rightarrow> pyfloat \<Rightarrow> pyfloat \<Rightarrow> row" where
  "sample m p d h =
     \<lparr>batch_id = ''BATCH_001'', sample_id = ''SAMPLE_000001'',
      moisture = m, ph = p, diastase_activity = d, h_m_f = h\<rparr>"


text \<open>
  Sample inputs of a run: a sample with every parameter inside its bounds, an environment
  whose CSV reader returns the given rows and whose clock reads \<open>t0\<close> at the start and
  \<open>t1\<close> afterwards, a database engine that stores and one that raises, a cache client
  that raises, a rule dictionary whose moisture rule lacks \<open>max\<close>, and a processor with
  the built-in rules.
\<close>

definition ideal_sample :: row where
  "ideal_sample = sample (Fin 17.5) (Fin 5.0) (Fin 10.0) (Fin 30.0)"

definition csv_env :: "row list \<Rightarrow> real \<Rightarrow> real \<Rightarrow> environment" where
  "csv_env data t0 t1 =
     \<lparr>read_csv = (\<lambda>path. Inr data),
      read_excel = (\<lambda>path. Inl (ExternalError ''not an Excel file'')),
      now_start = t0, now_processed = t1, now_end = t1\<rparr>"

definition working_engine :: "(string \<Rightarrow> scored_row list \<Rightarrow> py_exception option) option" where
  "working_engine = Some (\<lambda>table_name data. None)"

definition failing_engine ::
    "string \<Rightarrow> (string \<Rightarrow> scored_row list \<Rightarrow> py_exception option) option" where
  "failing_engine msg = Some (\<lambda>table_name data. Some (ExternalError msg))"

definition failing_client :: "string \<Rightarrow> (string \<Rightarrow> py_exception option) option" where
  "failing_client msg = Some (\<lambda>key. Some (ExternalError msg))"

definition incomplete_rules :: business_rules where
  "incomplete_rules = [''moisture'' \<mapsto> [''min'' \<mapsto> Fin 15.0]]"

definition default_processor ::
    "(string \<Rightarrow> scored_row list \<Rightarrow> py_exception option) option
     \<Rightarrow> (string \<Rightarrow> py_exception option) option \<Rightarrow> processor" where
  "default_processor engine client =
     \<lparr>business_rules = default_business_rules, db_engine = engine, redis_client = client\<rparr>"


section \<open>The classifier\<close>

lemma fle_Fin_mono: "fle (Fin a) s \<Longrightarrow> b \<le> a \<Longrightarrow> fle (Fin b) s"
  by (cases s) auto

lemma fge_Fin_mono: "fge s (Fin a) \<Longrightarrow> b \<le> a \<Longrightarrow> fge s (Fin b)"
  unfolding fge_def by (rule fle_Fin_mono)

lemma fge_95_90: "fge s (Fin 95) \<Longrightarrow> fge s (Fin 90)"
  by (erule fge_Fin_mono) simp

lemma fge_90_80: "fge s (Fin 90) \<Longrightarrow> fge s (Fin 80)"
  by (erule fge_Fin_mono) simp

lemma fge_80_70: "fge s (Fin 80) \<Longrightarrow> fge s (Fin 70)"
  by (erule fge_Fin_mono) simp

text \<open>
  Claim C4. Both classifiers are total, with no gap and no overlap between tiers, and
  every tier contains its floor. For every score (NaN and the infinities included) each
  label is returned on exactly one band: in the unified generator Premium from 95,
  Excellent on [90, 95), Good on [80, 90), Fair on [70, 80) and Poor below 70 (or for
  NaN); compliance is Compliant from 80, Warning on [70, 80) and Non-Compliant otherwise;
  the ETL processor has Excellent from 90, Good on [80, 90), Fair on [70, 80) and Poor
  otherwise. The bands are pairwise disjoint and cover every score, so a score has exactly
  one category and one compliance value; 90.0 is Excellent in both classifiers, and 95,
  80 and 70 belong to the tier they open.
\<close>

theorem classifier_total_inclusive_floors:
  "(unified_categorize_quality s = ''Premium'' \<longleftrightarrow> fge s (Fin 95))
   \<and> (unified_categorize_quality s = ''Excellent'' \<longleftrightarrow> fge s (Fin 90) \<and> \<not> fge s (Fin 95))
   \<and> (unified_categorize_quality s = ''Good'' \<longleftrightarrow> fge s (Fin 80) \<and> \<not> fge s (Fin 90))
   \<and> (unified_categorize_quality s = ''Fair'' \<longleftrightarrow> fge s (Fin 70) \<and> \<not> fge s (Fin 80))
   \<and> (unified_categorize_quality s = ''Poor'' \<longleftrightarrow> \<not> fge s (Fin 70))
   \<and> (get_compliance_status s = ''Compliant'' \<longleftrightarrow> fge s (Fin 80))
   \<and> (get_compliance_status s = ''Warning'' \<longleftrightarrow> fge s (Fin 70) \<and> \<not> fge s (Fin 80))
   \<and> (get_compliance_status s = ''Non-Compliant'' \<longleftrightarrow> \<not> fge s (Fin 70))
   \<and> (etl_categorize_quality s = ''Excellent'' \<longleftrightarrow> fge s (Fin 90))
   \<and> (etl_categorize_quality s = ''Good'' \<longleftrightarrow> fge s (Fin 80) \<and> \<not> fge s (Fin 90))
   \<and> (etl_categorize_quality s = ''Fair'' \<longleftrightarrow> fge s (Fin 70) \<and> \<not> fge s (Fin 80))
   \<and> (etl_categorize_quality s = ''Poor'' \<longleftrightarrow> \<not> fge s (Fin 70))
   \<and> unified_categorize_quality (Fin 90.0) = ''Excellent''
   \<and> etl_categorize_quality (Fin 90.0) = ''Excellent''
   \<and> unified_categorize_quality (Fin 95.0) = ''Premium''
   \<and> unified_categorize_quality (Fin 80.0) = ''Good''
   \<and> unified_categorize_quality (Fin 70.0) = ''Fair''
   \<and> get_compliance_status (Fin 80.0) = ''Compliant''
   \<and> get_compliance_status (Fin 70.0) = ''Warning''"
proof -
  note mono = fge_95_90 [of s] fge_90_80 [of s] fge_80_70 [of s]
  have unified: "(unified_categorize_quality s = ''Premium'' \<longleftrightarrow> fge s (Fin 95))
     \<and> (unified_categorize_quality s = ''Excellent'' \<longleftrightarrow> fge s (Fin 90) \<and> \<not> fge s (Fin 95))
     \<and> (unified_categorize_quality s = ''Good'' \<longleftrightarrow> fge s (Fin 80) \<and> \<not> fge s (Fin 90))
     \<and> (unified_categorize_quality s = ''Fair'' \<longleftrightarrow> fge s (Fin 70) \<and> \<not> fge s (Fin 80))
     \<and> (unified_categorize_quality s = ''Poor'' \<longleftrightarrow> \<not> fge s (Fin 70))"
    unfolding unified_categorize_quality_def using mono by auto
  have compliance: "(get_compliance_status s = ''Compliant'' \<longleftrightarrow> fge s (Fin 80))
     \<and> (get_compliance_status s = ''Warning'' \<longleftrightarrow> fge s (Fin 70) \<and> \<not> fge s (Fin 80))
     \<and> (get_compliance_status s = ''Non-Compliant'' \<longleftrightarrow> \<not> fge s (Fin 70))"
    unfolding get_compliance_status_def using mono by auto
  have etl: "(etl_categorize_quality s = ''Excellent'' \<longleftrightarrow> fge s (Fin 90))
     \<and> (etl_categorize_quality s = ''Good'' \<longleftrightarrow> fge s (Fin 80) \<and> \<not> fge s (Fin 90))
     \<and> (etl_categorize_quality s = ''Fair'' \<longleftrightarrow> fge s (Fin 70) \<and> \<not> fge s (Fin 80))
     \<and> (etl_categorize_quality s = ''Poor'' \<longleftrightarrow> \<not> fge s (Fin 70))"
    unfolding etl_categorize_quality_def using mono by auto
  have floors: "unified_categorize_quality (Fin 90.0) = ''Excellent''
     \<and> etl_categorize_quality (Fin 90.0) = ''Excellent''
     \<and> unified_categorize_quality (Fin 95.0) = ''Premium''
     \<and> unified_categorize_quality (Fin 80.0) = ''Good''
     \<and> unified_categorize_quality (Fin 70.0) = ''Fair''
     \<and> get_compliance_status (Fin 80.0) = ''Compliant''
     \<and> get_compliance_status (Fin 70.0) = ''Warning''"
    by (simp add: unified_categorize_quality_def etl_categorize_quality_def
        get_compliance_status_def fge_def)
  from unified compliance etl floors show ?thesis by blast
qed

theorem classifier_total_inclusive_floors_witness:
  "unified_categorize_quality (Fin 89.9) = ''Good''
   \<and> get_compliance_status (Fin 89.9) = ''Compliant''
   \<and> etl_categorize_quality (Fin 89.9) = ''Good''"
proof -
  have "fge (Fin 89.9) (Fin 80)" and "\<not> fge (Fin 89.9) (Fin 90)"
    by (simp_all add: fge_def)
  with classifier_total_inclusive_floors [of "Fin 89.9"] show ?thesis by blast
qed

text \<open>
  Claim C9. In the unified generator the category and the compliance status of one score
  agree: the category is Premium, Excellent or Good exactly when the status is Compliant,
  Fair exactly when it is Warning, and Poor exactly when it is Non-Compliant.
\<close>

theorem category_compliance_coherent:
  "(unified_categorize_quality s \<in> {''Premium'', ''Excellent'', ''Good''}
      \<longleftrightarrow> get_compliance_status s = ''Compliant'')
   \<and> (unified_categorize_quality s = ''Fair'' \<longleftrightarrow> get_compliance_status s = ''Warning'')
   \<and> (unified_categorize_quality s = ''Poor'' \<longleftrightarrow> get_compliance_status s = ''Non-Compliant'')"
  unfolding unified_categorize_quality_def get_compliance_status_def
  using fge_95_90 [of s] fge_90_80 [of s] fge_80_70 [of s] by auto

theorem category_compliance_coherent_witness:
  "get_compliance_status (Fin 75) = ''Warning''"
proof -
  have "unified_categorize_quality (Fin 75) = ''Fair''"
    by (simp add: unified_categorize_quality_def fge_def)
  with category_compliance_coherent [of "Fin 75"] show ?thesis by blast
qed

section \<open>The scoring engines\<close>

lemma bindE_Inr: "bindE m f = Inr y \<longleftrightarrow> (\<exists>x. m = Inr x \<and> f x = Inr y)"
  by (cases m) (simp_all add: bindE_def)

lemma moisture_scoring_penalty:
  "moisture_scoring rules r s = Inr s' \<Longrightarrow> s - s' \<in> {0, 5, 15}"
  by (auto simp: moisture_scoring_def bindE_def lookup_def split: option.splits if_splits)

lemma ph_scoring_penalty:
  "ph_scoring rules r s = Inr s' \<Longrightarrow> s - s' \<in> {0, 5, 15}"
  by (auto simp: ph_scoring_def bindE_def lookup_def split: option.splits if_splits)

lemma diastase_scoring_penalty:
  "diastase_scoring rules r s = Inr s' \<Longrightarrow> s - s' \<in> {0, 5, 15}"
  by (auto simp: diastase_scoring_def bindE_def lookup_def split: option.splits if_splits)

lemma hmf_scoring_penalty:
  "hmf_scoring rules r s = Inr s' \<Longrightarrow> s - s' \<in> {0, 5, 15}"
  by (auto simp: hmf_scoring_def bindE_def lookup_def split: option.splits if_splits)

lemma etl_unclamped_score_blocks:
  assumes "etl_unclamped_score rules r = Inr s"
  obtains s1 s2 s3 where
    "moisture_scoring rules r 100 = Inr s1" "ph_scoring rules r s1 = Inr s2"
    "diastase_scoring rules r s2 = Inr s3" "hmf_scoring rules r s3 = Inr s"
  using assms unfolding etl_unclamped_score_def bindE_Inr by auto

lemma etl_unclamped_score_bounds:
  assumes "etl_unclamped_score rules r = Inr s"
  shows "40 \<le> s \<and> s \<le> 100"
proof -
  from assms obtain s1 s2 s3 where
    1: "moisture_scoring rules r 100 = Inr s1" and
    2: "ph_scoring rules r s1 = Inr s2" and
    3: "diastase_scoring rules r s2 = Inr s3" and
    4: "hmf_scoring rules r s3 = Inr s"
    by (rule etl_unclamped_score_blocks)
  from moisture_scoring_penalty [OF 1] have "85 \<le> s1 \<and> s1 \<le> 100" by auto
  moreover from ph_scoring_penalty [OF 2] have "s1 - 15 \<le> s2 \<and> s2 \<le> s1" by auto
  moreover from diastase_scoring_penalty [OF 3] have "s2 - 15 \<le> s3 \<and> s3 \<le> s2" by auto
  moreover from hmf_scoring_penalty [OF 4] have "s3 - 15 \<le> s \<and> s \<le> s3" by auto
  ultimately show ?thesis by linarith
qed

lemma etl_clamp_identity:
  "etl_unclamped_score rules r = Inr s \<Longrightarrow> etl_calculate_quality_score rules r = Inr s"
  using etl_unclamped_score_bounds [of rules r s]
  by (simp add: etl_calculate_quality_score_def bindE_def)

lemma etl_calculate_Inr:
  "etl_calculate_quality_score rules r = Inr s \<Longrightarrow> etl_unclamped_score rules r = Inr s"
  using etl_clamp_identity [of rules r]
  by (cases "etl_unclamped_score rules r") (auto simp: etl_calculate_quality_score_def bindE_def)

lemma moisture_scoring_total:
  "rules_complete rules \<Longrightarrow> \<exists>s'. moisture_scoring rules r s = Inr s'"
  by (auto simp: rules_complete_def moisture_scoring_def bindE_def lookup_def split: option.splits)

lemma ph_scoring_total:
  "rules_complete rules \<Longrightarrow> \<exists>s'. ph_scoring rules r s = Inr s'"
  by (auto simp: rules_complete_def ph_scoring_def bindE_def lookup_def split: option.splits)

lemma diastase_scoring_total:
  "rules_complete rules \<Longrightarrow> \<exists>s'. diastase_scoring rules r s = Inr s'"
  by (auto simp: rules_complete_def diastase_scoring_def bindE_def lookup_def split: option.splits)

lemma hmf_scoring_total:
  "rules_complete rules \<Longrightarrow> \<exists>s'. hmf_scoring rules r s = Inr s'"
  by (auto simp: rules_complete_def hmf_scoring_def bindE_def lookup_def split: option.splits)

lemma etl_score_total:
  assumes "rules_complete rules"
  shows "\<exists>s. etl_calculate_quality_score rules r = Inr s"
proof -
  from moisture_scoring_total [OF assms] obtain s1
    where 1: "moisture_scoring rules r 100 = Inr s1" by blast
  from ph_scoring_total [OF assms] obtain s2
    where 2: "ph_scoring rules r s1 = Inr s2" by blast
  from diastase_scoring_total [OF assms] obtain s3
    where 3: "diastase_scoring rules r s2 = Inr s3" by blast
  from hmf_scoring_total [OF assms] obtain s4
    where 4: "hmf_scoring rules r s3 = Inr s4" by blast
  from 1 2 3 4 show ?thesis
    by (simp add: etl_calculate_quality_score_def etl_unclamped_score_def bindE_def)
qed

lemma etl_score_penalties:
  assumes "etl_calculate_quality_score rules r = Inr s"
  shows "\<exists>p1 p2 p3 p4. p1 \<in> {0, 5, 15} \<and> p2 \<in> {0, 5, 15} \<and> p3 \<in> {0, 5, 15} \<and> p4 \<in> {0, 5, 15}
           \<and> s = max 0 (100 - p1 - p2 - p3 - p4)"
proof -
  from etl_calculate_Inr [OF assms] obtain s1 s2 s3 where
    1: "moisture_scoring rules r 100 = Inr s1" and
    2: "ph_scoring rules r s1 = Inr s2" and
    3: "diastase_scoring rules r s2 = Inr s3" and
    4: "hmf_scoring rules r s3 = Inr s"
    by (rule etl_unclamped_score_blocks)
  from etl_unclamped_score_bounds [OF etl_calculate_Inr [OF assms]]
  have "s = max 0 (100 - (100 - s1) - (s1 - s2) - (s2 - s3) - (s3 - s))" by simp
  with moisture_scoring_penalty [OF 1] ph_scoring_penalty [OF 2]
    diastase_scoring_penalty [OF 3] hmf_scoring_penalty [OF 4]
  show ?thesis by blast
qed

lemma unified_unclamped_bounds:
  "30 \<le> unified_unclamped_score r \<and> unified_unclamped_score r \<le> 100"
  by (simp add: unified_unclamped_score_def Let_def)

lemma etl_score_fields:
  assumes "moisture r' = moisture r" "ph r' = ph r"
    "diastase_activity r' = diastase_activity r" "h_m_f r' = h_m_f r"
  shows "etl_calculate_quality_score rules r' = etl_calculate_quality_score rules r"
proof -
  have "moisture_scoring rules r' = moisture_scoring rules r"
    unfolding moisture_scoring_def assms(1) by (rule refl)
  moreover have "ph_scoring rules r' = ph_scoring rules r"
    unfolding ph_scoring_def assms(2) by (rule refl)
  moreover have "diastase_scoring rules r' = diastase_scoring rules r"
    unfolding diastase_scoring_def assms(3) by (rule refl)
  moreover have "hmf_scoring rules r' = hmf_scoring rules r"
    unfolding hmf_scoring_def assms(4) by (rule refl)
  ultimately show ?thesis
    by (simp add: etl_calculate_quality_score_def etl_unclamped_score_def)
qed

lemma unified_score_fields:
  assumes "moisture r' = moisture r" "ph r' = ph r"
    "diastase_activity r' = diastase_activity r" "h_m_f r' = h_m_f r"
  shows "unified_calculate_quality_score r' = unified_calculate_quality_score r"
  unfolding unified_calculate_quality_score_def unified_unclamped_score_def assms
  by (rule refl)

lemmas scoring_defs =
  etl_calculate_quality_score_def etl_unclamped_score_def moisture_scoring_def
  ph_scoring_def diastase_scoring_def hmf_scoring_def bindE_def lookup_def fge_def fsub_def

lemmas validation_defs =
  apply_business_rules_def moisture_validation_def ph_validation_def
  diastase_validation_def hmf_validation_def bindE_def lookup_def fge_def

lemma default_rules_complete: "rules_complete default_business_rules"
  by (simp add: rules_complete_def default_business_rules_def)

text \<open>
  Claim C1. The quality score is a function of the rules and of the four measurements of
  the record alone (two evaluations on records with the same measurements under the same
  rules give the same score, whatever the identity columns), and it lies in [0, 100]: it
  is 100 less one penalty per parameter, clamped below at 0. In the ETL processor each
  penalty is 0, 5 or 15 and a score is returned whenever every rule present has the keys
  the scorer reads; in the unified generator the score is always returned.
\<close>

theorem quality_score_deterministic_in_range:
  "(rules_complete rules \<longrightarrow> (\<exists>s. etl_calculate_quality_score rules r = Inr s))
   \<and> (\<forall>s. etl_calculate_quality_score rules r = Inr s \<longrightarrow>
         0 \<le> s \<and> s \<le> 100
         \<and> (\<exists>p1 p2 p3 p4. p1 \<in> {0, 5, 15} \<and> p2 \<in> {0, 5, 15} \<and> p3 \<in> {0, 5, 15}
               \<and> p4 \<in> {0, 5, 15} \<and> s = max 0 (100 - p1 - p2 - p3 - p4)))
   \<and> 0 \<le> unified_calculate_quality_score r
   \<and> unified_calculate_quality_score r \<le> 100
   \<and> unified_calculate_quality_score r = max 0 (unified_unclamped_score r)
   \<and> unified_unclamped_score r \<le> 100
   \<and> (moisture r' = moisture r \<and> ph r' = ph r
        \<and> diastase_activity r' = diastase_activity r \<and> h_m_f r' = h_m_f r \<longrightarrow>
        etl_calculate_quality_score rules r' = etl_calculate_quality_score rules r
        \<and> unified_calculate_quality_score r' = unified_calculate_quality_score r)"
proof -
  have total: "rules_complete rules \<longrightarrow> (\<exists>s. etl_calculate_quality_score rules r = Inr s)"
    using etl_score_total by blast
  have range: "\<forall>s. etl_calculate_quality_score rules r = Inr s \<longrightarrow>
         0 \<le> s \<and> s \<le> 100
         \<and> (\<exists>p1 p2 p3 p4. p1 \<in> {0, 5, 15} \<and> p2 \<in> {0, 5, 15} \<and> p3 \<in> {0, 5, 15}
               \<and> p4 \<in> {0, 5, 15} \<and> s = max 0 (100 - p1 - p2 - p3 - p4))"
  proof (intro allI impI conjI)
    fix s assume s: "etl_calculate_quality_score rules r = Inr s"
    from etl_unclamped_score_bounds [OF etl_calculate_Inr [OF s]]
    show "0 \<le> s" and "s \<le> 100" by simp_all
    from etl_score_penalties [OF s]
    show "\<exists>p1 p2 p3 p4. p1 \<in> {0, 5, 15} \<and> p2 \<in> {0, 5, 15} \<and> p3 \<in> {0, 5, 15}
               \<and> p4 \<in> {0, 5, 15} \<and> s = max 0 (100 - p1 - p2 - p3 - p4)" .
  qed
  have unified: "0 \<le> unified_calculate_quality_score r
     \<and> unified_calculate_quality_score r \<le> 100
     \<and> unified_calculate_quality_score r = max 0 (unified_unclamped_score r)
     \<and> unified_unclamped_score r \<le> 100"
    using unified_unclamped_bounds [of r] by (simp add: unified_calculate_quality_score_def)
  have fields: "moisture r' = moisture r \<and> ph r' = ph r
        \<and> diastase_activity r' = diastase_activity r \<and> h_m_f r' = h_m_f r \<longrightarrow>
        etl_calculate_quality_score rules r' = etl_calculate_quality_score rules r
        \<and> unified_calculate_quality_score r' = unified_calculate_quality_score r"
    using etl_score_fields [of r' r rules] unified_score_fields [of r' r] by blast
  from total range unified fields show ?thesis by blast
qed

theorem quality_score_deterministic_in_range_witness:
  "rules_complete default_business_rules
   \<and> etl_calculate_quality_score default_business_rules
        (sample (Fin 20.5) (Fin 7.5) (Fin 7.0) (Fin 45.0)) = Inr 70
   \<and> etl_calculate_quality_score default_business_rules
        ((sample (Fin 20.5) (Fin 7.5) (Fin 7.0) (Fin 45.0))\<lparr>batch_id := ''BATCH_002''\<rparr>) = Inr 70
   \<and> (0::real) \<le> 70 \<and> (70::real) \<le> 100"
proof -
  let ?r = "sample (Fin 20.5) (Fin 7.5) (Fin 7.0) (Fin 45.0)"
  let ?r' = "?r\<lparr>batch_id := ''BATCH_002''\<rparr>"
  have s: "etl_calculate_quality_score default_business_rules ?r = Inr 70"
    by (simp add: scoring_defs default_business_rules_def sample_def)
  have same: "moisture ?r' = moisture ?r \<and> ph ?r' = ph ?r
        \<and> diastase_activity ?r' = diastase_activity ?r \<and> h_m_f ?r' = h_m_f ?r"
    by simp
  from quality_score_deterministic_in_range [of default_business_rules ?r ?r'] s same
    default_rules_complete
  show ?thesis by simp
qed

text \<open>
  Claim C10. In the ETL processor each of the four parameter checks subtracts 0, 5 or 15
  points, hence at most 15; the total penalty is at most 60, the score before the clamp is
  at least 40, so the clamp \<open>max(0.0, score)\<close> returns its argument unchanged and the
  returned score is at least 40, for every record and every rule configuration.
\<close>

theorem etl_score_at_least_40_clamp_idle:
  "(\<forall>s s'. moisture_scoring rules r s = Inr s' \<longrightarrow> 0 \<le> s - s' \<and> s - s' \<le> 15)
   \<and> (\<forall>s s'. ph_scoring rules r s = Inr s' \<longrightarrow> 0 \<le> s - s' \<and> s - s' \<le> 15)
   \<and> (\<forall>s s'. diastase_scoring rules r s = Inr s' \<longrightarrow> 0 \<le> s - s' \<and> s - s' \<le> 15)
   \<and> (\<forall>s s'. hmf_scoring rules r s = Inr s' \<longrightarrow> 0 \<le> s - s' \<and> s - s' \<le> 15)
   \<and> (\<forall>s. etl_unclamped_score rules r = Inr s \<longrightarrow>
         100 - s \<le> 60 \<and> 40 \<le> s \<and> max 0.0 s = s
         \<and> etl_calculate_quality_score rules r = Inr s)
   \<and> (\<forall>s. etl_calculate_quality_score rules r = Inr s \<longrightarrow>
         40 \<le> s \<and> etl_unclamped_score rules r = Inr s)"
proof -
  have m: "\<forall>s s'. moisture_scoring rules r s = Inr s' \<longrightarrow> 0 \<le> s - s' \<and> s - s' \<le> 15"
    using moisture_scoring_penalty [of rules r] by fastforce
  have p: "\<forall>s s'. ph_scoring rules r s = Inr s' \<longrightarrow> 0 \<le> s - s' \<and> s - s' \<le> 15"
    using ph_scoring_penalty [of rules r] by fastforce
  have d: "\<forall>s s'. diastase_scoring rules r s = Inr s' \<longrightarrow> 0 \<le> s - s' \<and> s - s' \<le> 15"
    using diastase_scoring_penalty [of rules r] by fastforce
  have h: "\<forall>s s'. hmf_scoring rules r s = Inr s' \<longrightarrow> 0 \<le> s - s' \<and> s - s' \<le> 15"
    using hmf_scoring_penalty [of rules r] by fastforce
  have u: "\<forall>s. etl_unclamped_score rules r = Inr s \<longrightarrow>
         100 - s \<le> 60 \<and> 40 \<le> s \<and> max 0.0 s = s
         \<and> etl_calculate_quality_score rules r = Inr s"
    using etl_unclamped_score_bounds [of rules r] etl_clamp_identity [of rules r] by auto
  have c: "\<forall>s. etl_calculate_quality_score rules r = Inr s \<longrightarrow>
         40 \<le> s \<and> etl_unclamped_score rules r = Inr s"
    using etl_unclamped_score_bounds [of rules r] etl_calculate_Inr [of rules r] by auto
  from m p d h u c show ?thesis by blast
qed

theorem etl_score_at_least_40_clamp_idle_witness:
  "moisture_scoring default_business_rules
      (sample (Fin 30.0) (Fin 9.0) (Fin 1.0) (Fin 100.0)) 100 = Inr 85
   \<and> ph_scoring default_business_rules
      (sample (Fin 30.0) (Fin 9.0) (Fin 1.0) (Fin 100.0)) 85 = Inr 70
   \<and> diastase_scoring default_business_rules
      (sample (Fin 30.0) (Fin 9.0) (Fin 1.0) (Fin 100.0)) 70 = Inr 55
   \<and> hmf_scoring default_business_rules
      (sample (Fin 30.0) (Fin 9.0) (Fin 1.0) (Fin 100.0)) 55 = Inr 40
   \<and> etl_unclamped_score default_business_rules
      (sample (Fin 30.0) (Fin 9.0) (Fin 1.0) (Fin 100.0)) = Inr 40
   \<and> etl_calculate_quality_score default_business_rules
      (sample (Fin 30.0) (Fin 9.0) (Fin 1.0) (Fin 100.0)) = Inr 40
   \<and> (100::real) - 40 \<le> 60"
proof -
  let ?r = "sample (Fin 30.0) (Fin 9.0) (Fin 1.0) (Fin 100.0)"
  have m: "moisture_scoring default_business_rules ?r 100 = Inr 85"
    by (simp add: scoring_defs default_business_rules_def sample_def)
  have p: "ph_scoring default_business_rules ?r 85 = Inr 70"
    by (simp add: scoring_defs default_business_rules_def sample_def)
  have d: "diastase_scoring default_business_rules ?r 70 = Inr 55"
    by (simp add: scoring_defs default_business_rules_def sample_def)
  have h: "hmf_scoring default_business_rules ?r 55 = Inr 40"
    by (simp add: scoring_defs default_business_rules_def sample_def)
  have u: "etl_unclamped_score default_business_rules ?r = Inr 40"
    by (simp add: scoring_defs default_business_rules_def sample_def)
  from etl_score_at_least_40_clamp_idle [of default_business_rules ?r] u
  have c: "etl_calculate_quality_score default_business_rules ?r = Inr 40
     \<and> (100::real) - 40 \<le> 60"
    by blast
  with etl_score_at_least_40_clamp_idle [of default_business_rules ?r]
  have "(40::real) \<le> 40 \<and> etl_unclamped_score default_business_rules ?r = Inr 40"
    by blast
  with m p d h c show ?thesis by blast
qed

section \<open>Validation against scoring\<close>

lemma moisture_validated:
  "moisture_validation rules data = Inr d \<Longrightarrow> r \<in> set d \<Longrightarrow>
     r \<in> set data \<and> moisture_scoring rules r s = Inr s"
  by (auto simp: moisture_validation_def moisture_scoring_def bindE_def lookup_def fge_def
      split: option.splits)

lemma ph_validated:
  "ph_validation rules data = Inr d \<Longrightarrow> r \<in> set d \<Longrightarrow>
     r \<in> set data \<and> ph_scoring rules r s = Inr s"
  by (auto simp: ph_validation_def ph_scoring_def bindE_def lookup_def fge_def
      split: option.splits)

lemma diastase_validated:
  "diastase_validation rules data = Inr d \<Longrightarrow> r \<in> set d \<Longrightarrow>
     r \<in> set data \<and> diastase_scoring rules r s = Inr s"
  by (auto simp: diastase_validation_def diastase_scoring_def bindE_def lookup_def fge_def
      split: option.splits)

lemma hmf_validated:
  "hmf_validation rules data = Inr d \<Longrightarrow> r \<in> set d \<Longrightarrow>
     r \<in> set data \<and> hmf_scoring rules r s = Inr s"
  by (auto simp: hmf_validation_def hmf_scoring_def bindE_def lookup_def fge_def
      split: option.splits)

lemma validated_unclamped_100:
  assumes "apply_business_rules rules data = Inr data'" and "r \<in> set data'"
  shows "etl_unclamped_score rules r = Inr 100 \<and> r \<in> set data"
proof -
  from assms(1) obtain d1 d2 d3 where
    1: "moisture_validation rules data = Inr d1" and
    2: "ph_validation rules d1 = Inr d2" and
    3: "diastase_validation rules d2 = Inr d3" and
    4: "hmf_validation rules d3 = Inr data'"
    unfolding apply_business_rules_def bindE_Inr by auto
  from hmf_validated [OF 4 assms(2)]
  have r3: "r \<in> set d3" and s4: "hmf_scoring rules r 100 = Inr 100" by auto
  from diastase_validated [OF 3 r3]
  have r2: "r \<in> set d2" and s3: "diastase_scoring rules r 100 = Inr 100" by auto
  from ph_validated [OF 2 r2]
  have r1: "r \<in> set d1" and s2: "ph_scoring rules r 100 = Inr 100" by auto
  from moisture_validated [OF 1 r1]
  have r0: "r \<in> set data" and s1: "moisture_scoring rules r 100 = Inr 100" by auto
  from s1 s2 s3 s4 r0 show ?thesis
    by (simp add: etl_unclamped_score_def bindE_def)
qed

lemma validated_score_100:
  "apply_business_rules rules data = Inr data' \<Longrightarrow> r \<in> set data' \<Longrightarrow>
     etl_calculate_quality_score rules r = Inr 100"
  using validated_unclamped_100 [of rules data data' r] etl_clamp_identity [of rules r 100]
  by simp

lemma mapE_Inr:
  "mapE f xs = Inr ys \<Longrightarrow>
     length ys = length xs \<and> (\<forall>i<length xs. f (xs ! i) = Inr (ys ! i))"
proof (induction xs arbitrary: ys)
  case Nil
  then show ?case by simp
next
  case (Cons x xs)
  from Cons.prems obtain y ys' where
    y: "f x = Inr y" and ys': "mapE f xs = Inr ys'" and eq: "ys = y # ys'"
    by (auto simp: bindE_Inr)
  from Cons.IH [OF ys'] y eq show ?case
    by (auto simp: nth_Cons split: nat.splits)
qed

lemma transform_data_Inr:
  assumes "transform_data p now data = Inr td"
  obtains d scores where
    "apply_business_rules (business_rules p) (dropna data) = Inr d"
    "mapE (etl_calculate_quality_score (business_rules p)) d = Inr scores"
    "td = map2 (add_columns now) d scores"
  using assms unfolding transform_data_def Let_def bindE_Inr by auto

lemma transform_scores_100:
  assumes "transform_data p now data = Inr td" and "x \<in> set td"
  shows "quality_score x = 100 \<and> quality_category x = ''Excellent''"
proof -
  from assms(1) obtain d scores where
    d: "apply_business_rules (business_rules p) (dropna data) = Inr d" and
    sc: "mapE (etl_calculate_quality_score (business_rules p)) d = Inr scores" and
    td: "td = map2 (add_columns now) d scores"
    by (rule transform_data_Inr)
  from mapE_Inr [OF sc] have len: "length scores = length d"
    and each: "\<And>i. i < length d \<Longrightarrow>
      etl_calculate_quality_score (business_rules p) (d ! i) = Inr (scores ! i)"
    by auto
  from assms(2) td len obtain i where
    i: "i < length d" and x: "x = add_columns now (d ! i) (scores ! i)"
    by (auto simp: in_set_conv_nth)
  from i have "d ! i \<in> set d" by simp
  from validated_score_100 [OF d this] each [OF i] have "scores ! i = 100" by simp
  with x show ?thesis
    by (simp add: add_columns_def row.defs scored_row.defs etl_categorize_quality_def fge_def)
qed

lemma ideal_validated:
  "apply_business_rules default_business_rules [ideal_sample] = Inr [ideal_sample]"
  by (simp add: validation_defs default_business_rules_def sample_def ideal_sample_def)

lemma ideal_dropna: "dropna [ideal_sample] = [ideal_sample]"
  by (simp add: dropna_def sample_def ideal_sample_def)

lemma ideal_transform:
  "transform_data (default_processor engine client) now [ideal_sample]
     = Inr [add_columns now ideal_sample 100]"
proof -
  have s: "etl_calculate_quality_score default_business_rules ideal_sample = Inr 100"
    by (rule validated_score_100 [OF ideal_validated]) simp
  show ?thesis
    by (simp add: transform_data_def ideal_dropna ideal_validated s default_processor_def
        bindE_def)
qed

text \<open>
  Claim C3, as the code has it. In the ETL processor the validator and the scorer test the
  same bounds, so hard rejection and soft penalisation never meet on one record: every
  record that passes \<open>_apply_business_rules\<close> is scored exactly 100.0, and every row
  that \<open>transform_data\<close> returns has score 100.0 and category Excellent. The penalty
  tiers are reached only by values outside the hard bounds, which the validator has
  already removed: under the built-in rules a sample with moisture 20.5 scores 95.0 when
  scored directly, and is rejected by the validator.
\<close>

theorem validated_record_scores_100:
  "(\<forall>accepted r. apply_business_rules rules data = Inr accepted \<and> r \<in> set accepted \<longrightarrow>
        r \<in> set data \<and> etl_calculate_quality_score rules r = Inr 100)
   \<and> (\<forall>td x. transform_data p now data = Inr td \<and> x \<in> set td \<longrightarrow>
        quality_score x = 100 \<and> quality_category x = ''Excellent'')
   \<and> etl_calculate_quality_score default_business_rules
        (sample (Fin 20.5) (Fin 5.0) (Fin 10.0) (Fin 30.0)) = Inr 95
   \<and> apply_business_rules default_business_rules
        [sample (Fin 20.5) (Fin 5.0) (Fin 10.0) (Fin 30.0)] = Inr []"
proof -
  have v: "\<forall>accepted r. apply_business_rules rules data = Inr accepted \<and> r \<in> set accepted \<longrightarrow>
        r \<in> set data \<and> etl_calculate_quality_score rules r = Inr 100"
    using validated_unclamped_100 [of rules data] validated_score_100 [of rules data]
    by blast
  have t: "\<forall>td x. transform_data p now data = Inr td \<and> x \<in> set td \<longrightarrow>
        quality_score x = 100 \<and> quality_category x = ''Excellent''"
    using transform_scores_100 [of p now data] by blast
  have s: "etl_calculate_quality_score default_business_rules
        (sample (Fin 20.5) (Fin 5.0) (Fin 10.0) (Fin 30.0)) = Inr 95"
    by (simp add: scoring_defs default_business_rules_def sample_def)
  have r: "apply_business_rules default_business_rules
        [sample (Fin 20.5) (Fin 5.0) (Fin 10.0) (Fin 30.0)] = Inr []"
    by (simp add: validation_defs default_business_rules_def sample_def)
  from v t s r show ?thesis by blast
qed

theorem validated_record_scores_100_witness:
  "apply_business_rules default_business_rules
      [sample (Fin 19.9) (Fin 3.5) (Fin 8.0) (Fin 40.0)]
     = Inr [sample (Fin 19.9) (Fin 3.5) (Fin 8.0) (Fin 40.0)]
   \<and> etl_calculate_quality_score default_business_rules
        (sample (Fin 19.9) (Fin 3.5) (Fin 8.0) (Fin 40.0)) = Inr 100
   \<and> transform_data (default_processor None None) 0 [ideal_sample]
        = Inr [add_columns 0 ideal_sample 100]
   \<and> quality_score (add_columns 0 ideal_sample 100) = 100
   \<and> quality_category (add_columns 0 ideal_sample 100) = ''Excellent''"
proof -
  let ?r = "sample (Fin 19.9) (Fin 3.5) (Fin 8.0) (Fin 40.0)"
  have a: "apply_business_rules default_business_rules [?r] = Inr [?r]"
    by (simp add: validation_defs default_business_rules_def sample_def)
  have "?r \<in> set [?r]" by simp
  with validated_record_scores_100 [of default_business_rules "[?r]"] a
  have 1: "etl_calculate_quality_score default_business_rules ?r = Inr 100" by blast
  have t: "transform_data (default_processor None None) 0 [ideal_sample]
        = Inr [add_columns 0 ideal_sample 100]"
    by (rule ideal_transform)
  have "add_columns 0 ideal_sample 100 \<in> set [add_columns 0 ideal_sample 100]" by simp
  with validated_record_scores_100
    [of default_business_rules "[ideal_sample]" "default_processor None None" 0] t
  have 2: "quality_score (add_columns 0 ideal_sample 100) = 100
     \<and> quality_category (add_columns 0 ideal_sample 100) = ''Excellent''" by blast
  from a 1 t 2 show ?thesis by blast
qed

theorem validated_below_100_counterexample:
  "\<not> (\<exists>rules r s. apply_business_rules rules [r] = Inr [r]
         \<and> etl_calculate_quality_score rules r = Inr s \<and> s < 100)"
proof
  assume "\<exists>rules r s. apply_business_rules rules [r] = Inr [r]
         \<and> etl_calculate_quality_score rules r = Inr s \<and> s < 100"
  then obtain rules r s where
    a: "apply_business_rules rules [r] = Inr [r]" and
    b: "etl_calculate_quality_score rules r = Inr s" and c: "s < 100"
    by blast
  from validated_score_100 [OF a, of r] b c show False by simp
qed

lemma default_moisture_band:
  "moisture_scoring default_business_rules r s =
     Inr (if fle (Fin 15.0) (moisture r) \<and> fle (moisture r) (Fin 20.0) then s - 0
          else if fle (Fin 14.0) (moisture r) \<and> fle (moisture r) (Fin 21.0) then s - 5
          else s - 15)"
  by (simp add: moisture_scoring_def default_business_rules_def bindE_def lookup_def fsub_def)

lemma default_other_blocks:
  assumes "fle (Fin 3.5) (ph r) \<and> fle (ph r) (Fin 6.5)"
    and "fge (diastase_activity r) (Fin 8.0)" and "fle (h_m_f r) (Fin 40.0)"
  shows "ph_scoring default_business_rules r s = Inr s"
    and "diastase_scoring default_business_rules r s = Inr s"
    and "hmf_scoring default_business_rules r s = Inr s"
  using assms
  by (simp_all add: ph_scoring_def diastase_scoring_def hmf_scoring_def
      default_business_rules_def bindE_def lookup_def)

lemma default_score_moisture_only:
  assumes "fle (Fin 3.5) (ph r) \<and> fle (ph r) (Fin 6.5)"
    and "fge (diastase_activity r) (Fin 8.0)" and "fle (h_m_f r) (Fin 40.0)"
  shows "etl_calculate_quality_score default_business_rules r =
     Inr (if fle (Fin 15.0) (moisture r) \<and> fle (moisture r) (Fin 20.0) then 100
          else if fle (Fin 14.0) (moisture r) \<and> fle (moisture r) (Fin 21.0) then 95
          else 85)"
  by (simp add: etl_calculate_quality_score_def etl_unclamped_score_def
      default_moisture_band default_other_blocks [OF assms] bindE_def)

lemma default_rejects_out_of_range:
  "\<not> (fle (Fin 15.0) m \<and> fle m (Fin 20.0)) \<Longrightarrow>
     apply_business_rules default_business_rules [sample m p d h] = Inr []"
  by (auto simp: validation_defs default_business_rules_def sample_def)

text \<open>
  Claim C5, as the code has it. Under the moisture rule [15.0, 20.0] the ETL scorer has
  one penalty band outside the rule's range, of width 1.0 on each side: for every moisture
  value the penalty is 0 inside [15.0, 20.0], 5 inside [14.0, 21.0] but outside the range
  (a deviation of at most 1.0 beyond a bound, 1.0 included), and 15 otherwise. A record
  with moisture 22.0 is 2.0 beyond the maximum, outside the band, and loses 15 points:
  with the other three parameters inside their bounds the score is 85.0, the category is
  Good and the compliance status is Compliant. The 5-point penalty, the score 95.0 and
  the category Excellent are those of a record 1.0 beyond the maximum (moisture 21.0, the
  edge of the band, inclusive). Every record with moisture outside [15.0, 20.0] is
  rejected by the validator.
\<close>

theorem moisture_22_scores_85:
  assumes "fle (Fin 3.5) p \<and> fle p (Fin 6.5)" and "fge d (Fin 8.0)" and "fle h (Fin 40.0)"
  shows "(\<forall>m s. moisture_scoring default_business_rules (sample m p d h) s =
            Inr (if fle (Fin 15.0) m \<and> fle m (Fin 20.0) then s - 0
                 else if fle (Fin 14.0) m \<and> fle m (Fin 21.0) then s - 5
                 else s - 15))
     \<and> (\<forall>dev s. 0 < dev \<longrightarrow>
            moisture_scoring default_business_rules (sample (Fin (20.0 + dev)) p d h) s =
              Inr (if dev \<le> 1.0 then s - 5 else s - 15)
            \<and> moisture_scoring default_business_rules (sample (Fin (15.0 - dev)) p d h) s =
              Inr (if dev \<le> 1.0 then s - 5 else s - 15))
     \<and> (\<forall>m. etl_calculate_quality_score default_business_rules (sample m p d h) =
            Inr (if fle (Fin 15.0) m \<and> fle m (Fin 20.0) then 100.0
                 else if fle (Fin 14.0) m \<and> fle m (Fin 21.0) then 95.0
                 else 85.0))
     \<and> (\<forall>m. \<not> (fle (Fin 15.0) m \<and> fle m (Fin 20.0)) \<longrightarrow>
            apply_business_rules default_business_rules [sample m p d h] = Inr [])
     \<and> moisture_scoring default_business_rules (sample (Fin 22.0) p d h) 100
           = Inr (100 - 15)
     \<and> etl_calculate_quality_score default_business_rules (sample (Fin 22.0) p d h)
           = Inr 85.0
     \<and> etl_categorize_quality (Fin 85.0) = ''Good''
     \<and> get_compliance_status (Fin 85.0) = ''Compliant''
     \<and> apply_business_rules default_business_rules [sample (Fin 22.0) p d h] = Inr []
     \<and> moisture_scoring default_business_rules (sample (Fin 21.0) p d h) 100
           = Inr (100 - 5)
     \<and> etl_calculate_quality_score default_business_rules (sample (Fin 21.0) p d h)
           = Inr 95.0
     \<and> etl_categorize_quality (Fin 95.0) = ''Excellent''
     \<and> get_compliance_status (Fin 95.0) = ''Compliant''
     \<and> apply_business_rules default_business_rules [sample (Fin 21.0) p d h] = Inr []"
proof -
  have band: "moisture_scoring default_business_rules (sample m p d h) s =
            Inr (if fle (Fin 15.0) m \<and> fle m (Fin 20.0) then s - 0
                 else if fle (Fin 14.0) m \<and> fle m (Fin 21.0) then s - 5
                 else s - 15)" for m s
    by (simp add: default_moisture_band sample_def)
  have dev: "0 < dev \<longrightarrow>
            moisture_scoring default_business_rules (sample (Fin (20.0 + dev)) p d h) s =
              Inr (if dev \<le> 1.0 then s - 5 else s - 15)
            \<and> moisture_scoring default_business_rules (sample (Fin (15.0 - dev)) p d h) s =
              Inr (if dev \<le> 1.0 then s - 5 else s - 15)" for dev s
    by (simp add: default_moisture_band sample_def)
  have others: "fle (Fin 3.5) (ph (sample m p d h)) \<and> fle (ph (sample m p d h)) (Fin 6.5)"
    "fge (diastase_activity (sample m p d h)) (Fin 8.0)"
    "fle (h_m_f (sample m p d h)) (Fin 40.0)" for m
    using assms by (simp_all add: sample_def)
  have score: "etl_calculate_quality_score default_business_rules (sample m p d h) =
            Inr (if fle (Fin 15.0) m \<and> fle m (Fin 20.0) then 100.0
                 else if fle (Fin 14.0) m \<and> fle m (Fin 21.0) then 95.0
                 else 85.0)" for m
    using default_score_moisture_only [OF others [of m]] by (simp add: sample_def)
  have reject: "\<not> (fle (Fin 15.0) m \<and> fle m (Fin 20.0)) \<longrightarrow>
            apply_business_rules default_business_rules [sample m p d h] = Inr []" for m
    using default_rejects_out_of_range [of m p d h] by blast
  have labels: "etl_categorize_quality (Fin 85.0) = ''Good''
     \<and> get_compliance_status (Fin 85.0) = ''Compliant''
     \<and> etl_categorize_quality (Fin 95.0) = ''Excellent''
     \<and> get_compliance_status (Fin 95.0) = ''Compliant''"
    by (simp add: etl_categorize_quality_def get_compliance_status_def fge_def)
  have m22: "moisture_scoring default_business_rules (sample (Fin 22.0) p d h) 100
           = Inr (100 - 15)"
    by (simp add: band)
  have m21: "moisture_scoring default_business_rules (sample (Fin 21.0) p d h) 100
           = Inr (100 - 5)"
    by (simp add: band)
  have s22: "etl_calculate_quality_score default_business_rules (sample (Fin 22.0) p d h)
           = Inr 85.0"
    by (simp add: score)
  have s21: "etl_calculate_quality_score default_business_rules (sample (Fin 21.0) p d h)
           = Inr 95.0"
    by (simp add: score)
  have v22: "apply_business_rules default_business_rules [sample (Fin 22.0) p d h] = Inr []"
    by (rule default_rejects_out_of_range) simp
  have v21: "apply_business_rules default_business_rules [sample (Fin 21.0) p d h] = Inr []"
    by (rule default_rejects_out_of_range) simp
  from band dev score reject labels m22 m21 s22 s21 v22 v21 show ?thesis by blast
qed

theorem moisture_22_scores_85_witness:
  "(0::real) < 2
   \<and> moisture_scoring default_business_rules
      (sample (Fin 22) (Fin 5.0) (Fin 10.0) (Fin 30.0)) 100 = Inr 85
   \<and> etl_calculate_quality_score default_business_rules
      (sample (Fin 22.0) (Fin 5.0) (Fin 10.0) (Fin 30.0)) = Inr 85.0
   \<and> \<not> (fle (Fin 15.0) (Fin 22.0) \<and> fle (Fin 22.0) (Fin 20.0))
   \<and> apply_business_rules default_business_rules
      [sample (Fin 22.0) (Fin 5.0) (Fin 10.0) (Fin 30.0)] = Inr []"
proof -
  have a: "fle (Fin 3.5) (Fin 5.0) \<and> fle (Fin 5.0) (Fin 6.5)"
    and b: "fge (Fin 10.0) (Fin 8.0)" and c: "fle (Fin 30.0) (Fin 40.0)"
    by (simp_all add: fge_def)
  note inst = moisture_22_scores_85 [OF a b c]
  have pos: "(0::real) < 2" by simp
  from inst pos have "moisture_scoring default_business_rules
      (sample (Fin (20.0 + 2)) (Fin 5.0) (Fin 10.0) (Fin 30.0)) 100
       = Inr (if (2::real) \<le> 1.0 then 100 - 5 else 100 - 15)"
    by blast
  then have 1: "moisture_scoring default_business_rules
      (sample (Fin 22) (Fin 5.0) (Fin 10.0) (Fin 30.0)) 100 = Inr 85"
    by simp
  have out: "\<not> (fle (Fin 15.0) (Fin 22.0) \<and> fle (Fin 22.0) (Fin 20.0))" by simp
  with inst have 2: "apply_business_rules default_business_rules
      [sample (Fin 22.0) (Fin 5.0) (Fin 10.0) (Fin 30.0)] = Inr []"
    by blast
  from inst have 3: "etl_calculate_quality_score default_business_rules
      (sample (Fin 22.0) (Fin 5.0) (Fin 10.0) (Fin 30.0)) = Inr 85.0"
    by blast
  from pos 1 2 3 out show ?thesis by blast
qed

theorem moisture_22_not_95_counterexample:
  "moisture_scoring default_business_rules
      (sample (Fin 22.0) (Fin 5.0) (Fin 10.0) (Fin 30.0)) 100 \<noteq> Inr (100 - 5)
   \<and> etl_calculate_quality_score default_business_rules
      (sample (Fin 22.0) (Fin 5.0) (Fin 10.0) (Fin 30.0)) \<noteq> Inr 95.0
   \<and> etl_categorize_quality (Fin 85.0) \<noteq> ''Excellent''
   \<and> unified_calculate_quality_score
      (sample (Fin 22.0) (Fin 5.0) (Fin 10.0) (Fin 30.0)) \<noteq> 95.0"
  by (simp add: scoring_defs default_business_rules_def sample_def
      etl_categorize_quality_def unified_calculate_quality_score_def
      unified_unclamped_score_def)

section \<open>The pipeline run\<close>

lemma run_extract_fails:
  "extract_data env path = Inl e \<Longrightarrow>
   run_etl_pipeline env p path t =
     \<lparr>status = ''failed'', error = Some (str_exc e),
      duration_seconds = now_end env - now_start env, rows_processed = None,
      source_path = None, target_table = None, timestamp = now_end env\<rparr>"
  by (simp add: run_etl_pipeline_def bindE_def Let_def)

lemma run_transform_fails:
  "extract_data env path = Inr data \<Longrightarrow>
   transform_data p (now_processed env) data = Inl e \<Longrightarrow>
   run_etl_pipeline env p path t =
     \<lparr>status = ''failed'', error = Some (str_exc e),
      duration_seconds = now_end env - now_start env, rows_processed = None,
      source_path = None, target_table = None, timestamp = now_end env\<rparr>"
  by (simp add: run_etl_pipeline_def bindE_def Let_def)

lemma run_loaded:
  "extract_data env path = Inr data \<Longrightarrow>
   transform_data p (now_processed env) data = Inr td \<Longrightarrow>
   run_etl_pipeline env p path t =
     \<lparr>status = (if load_data p td t then ''success'' else ''failed''), error = None,
      duration_seconds = now_end env - now_start env, rows_processed = Some (length td),
      source_path = Some path, target_table = Some t, timestamp = now_end env\<rparr>"
  by (simp add: run_etl_pipeline_def bindE_def Let_def)

lemma run_status_duration:
  "status (run_etl_pipeline env p path t) \<in> {''success'', ''failed''}
   \<and> duration_seconds (run_etl_pipeline env p path t) = now_end env - now_start env
   \<and> timestamp (run_etl_pipeline env p path t) = now_end env"
proof (cases "extract_data env path")
  case (Inl e)
  from run_extract_fails [OF this] show ?thesis by simp
next
  case (Inr data)
  show ?thesis
  proof (cases "transform_data p (now_processed env) data")
    case (Inl e)
    from run_transform_fails [OF Inr this] show ?thesis by simp
  next
    case (Inr td)
    from run_loaded [OF \<open>extract_data env path = Inr data\<close> this] show ?thesis by simp
  qed
qed

lemma load_data_iff:
  "load_data p td t \<longleftrightarrow>
     (\<exists>to_sql. db_engine p = Some to_sql \<and> to_sql t td = None
        \<and> (\<forall>setex. redis_client p = Some setex \<longrightarrow> setex (''table_metadata:'' @ t) = None))"
  by (auto simp: load_data_def split: option.splits)

lemma moisture_validation_empty:
  "rules_complete rules \<Longrightarrow> moisture_validation rules [] = Inr []"
  by (auto simp: rules_complete_def moisture_validation_def bindE_def lookup_def
      split: option.splits)

lemma ph_validation_empty:
  "rules_complete rules \<Longrightarrow> ph_validation rules [] = Inr []"
  by (auto simp: rules_complete_def ph_validation_def bindE_def lookup_def
      split: option.splits)

lemma diastase_validation_empty:
  "rules_complete rules \<Longrightarrow> diastase_validation rules [] = Inr []"
  by (auto simp: rules_complete_def diastase_validation_def bindE_def lookup_def
      split: option.splits)

lemma hmf_validation_empty:
  "rules_complete rules \<Longrightarrow> hmf_validation rules [] = Inr []"
  by (auto simp: rules_complete_def hmf_validation_def bindE_def lookup_def
      split: option.splits)

lemma apply_business_rules_empty:
  "rules_complete rules \<Longrightarrow> apply_business_rules rules [] = Inr []"
  by (simp add: apply_business_rules_def bindE_def moisture_validation_empty
      ph_validation_empty diastase_validation_empty hmf_validation_empty)

lemma transform_data_empty:
  "rules_complete (business_rules p) \<Longrightarrow> transform_data p now [] = Inr []"
  by (simp add: transform_data_def dropna_def apply_business_rules_empty bindE_def)

lemma extract_csv:
  "extract_data (csv_env data t0 t1) ''data/sample_honey_data.csv'' = Inr data"
  by (simp add: extract_data_def endswith_def csv_env_def)

lemma default_processor_complete:
  "rules_complete (business_rules (default_processor engine client))"
  by (simp add: default_processor_def default_rules_complete)

text \<open>
  Claim C2, as the code has it. For every source path and table name the run returns an
  outcome whose status is success or failed and whose duration is the difference of the
  two clock readings; no exception of a stage reaches the caller. An exception raised by
  the extract or the transform stage is caught by the run and the outcome has status
  failed and carries \<open>str(e)\<close>. A failure of the load stage (no database engine, or an
  exception in \<open>to_sql\<close> or in the cache write, which \<open>load_data\<close> catches itself and
  turns into \<open>False\<close>) gives status failed with the row count, the source and the table,
  and no error message.
\<close>

theorem run_returns_outcome:
  "(\<forall>e. extract_data env path = Inl e \<longrightarrow>
       run_etl_pipeline env p path t =
         \<lparr>status = ''failed'', error = Some (str_exc e),
          duration_seconds = now_end env - now_start env, rows_processed = None,
          source_path = None, target_table = None, timestamp = now_end env\<rparr>)
   \<and> (\<forall>data e. extract_data env path = Inr data
          \<and> transform_data p (now_processed env) data = Inl e \<longrightarrow>
       run_etl_pipeline env p path t =
         \<lparr>status = ''failed'', error = Some (str_exc e),
          duration_seconds = now_end env - now_start env, rows_processed = None,
          source_path = None, target_table = None, timestamp = now_end env\<rparr>)
   \<and> (\<forall>data td. extract_data env path = Inr data
          \<and> transform_data p (now_processed env) data = Inr td \<longrightarrow>
       run_etl_pipeline env p path t =
         \<lparr>status = (if load_data p td t then ''success'' else ''failed''), error = None,
          duration_seconds = now_end env - now_start env,
          rows_processed = Some (length td), source_path = Some path,
          target_table = Some t, timestamp = now_end env\<rparr>)
   \<and> status (run_etl_pipeline env p path t) \<in> {''success'', ''failed''}
   \<and> duration_seconds (run_etl_pipeline env p path t) = now_end env - now_start env"
  using run_extract_fails [of env path _ p t] run_transform_fails [of env path _ p _ t]
    run_loaded [of env path _ p _ t] run_status_duration [of env p path t]
  by blast

theorem run_returns_outcome_witness:
  "run_etl_pipeline (csv_env [] 0 3) (default_processor None None)
      ''data/sample.json'' ''honey_quality_data''
     = \<lparr>status = ''failed'', error = Some ''Unsupported file format: data/sample.json'',
        duration_seconds = 3, rows_processed = None,
        source_path = None, target_table = None, timestamp = 3\<rparr>
   \<and> run_etl_pipeline (csv_env [ideal_sample] 0 3)
        \<lparr>business_rules = incomplete_rules, db_engine = None, redis_client = None\<rparr>
        ''data/sample_honey_data.csv'' ''honey_quality_data''
     = \<lparr>status = ''failed'', error = Some (str_exc (KeyError ''max'')),
        duration_seconds = 3, rows_processed = None,
        source_path = None, target_table = None, timestamp = 3\<rparr>
   \<and> run_etl_pipeline (csv_env [ideal_sample] 0 3) (default_processor working_engine None)
        ''data/sample_honey_data.csv'' ''honey_quality_data''
     = \<lparr>status = ''success'', error = None,
        duration_seconds = 3, rows_processed = Some 1,
        source_path = Some ''data/sample_honey_data.csv'',
        target_table = Some ''honey_quality_data'', timestamp = 3\<rparr>"
proof -
  let ?csv = "''data/sample_honey_data.csv''"
  let ?table = "''honey_quality_data''"
  let ?env = "csv_env [ideal_sample] 0 3"
  let ?p = "\<lparr>business_rules = incomplete_rules, db_engine = None, redis_client = None\<rparr>"
  have e: "extract_data (csv_env [] 0 3) ''data/sample.json''
             = Inl (ValueError ''Unsupported file format: data/sample.json'')"
    by (simp add: extract_data_def endswith_def)
  have x: "extract_data ?env ?csv = Inr [ideal_sample]"
    by (rule extract_csv)
  have t: "transform_data ?p (now_processed ?env) [ideal_sample] = Inl (KeyError ''max'')"
    by (simp add: transform_data_def ideal_dropna apply_business_rules_def
        moisture_validation_def bindE_def lookup_def incomplete_rules_def)
  have t': "transform_data (default_processor working_engine None) (now_processed ?env)
              [ideal_sample] = Inr [add_columns (now_processed ?env) ideal_sample 100]"
    by (rule ideal_transform)
  have l: "load_data (default_processor working_engine None) td ?table" for td
    by (simp add: load_data_def default_processor_def working_engine_def)
  from run_returns_outcome
    [of "csv_env [] 0 3" "''data/sample.json''" "default_processor None None" ?table] e
  have 1: "run_etl_pipeline (csv_env [] 0 3) (default_processor None None)
      ''data/sample.json'' ?table
     = \<lparr>status = ''failed'', error = Some ''Unsupported file format: data/sample.json'',
        duration_seconds = 3, rows_processed = None,
        source_path = None, target_table = None, timestamp = 3\<rparr>"
    by (simp add: csv_env_def)
  from run_returns_outcome [of ?env ?csv ?p ?table] x t
  have 2: "run_etl_pipeline ?env ?p ?csv ?table
     = \<lparr>status = ''failed'', error = Some (str_exc (KeyError ''max'')),
        duration_seconds = 3, rows_processed = None,
        source_path = None, target_table = None, timestamp = 3\<rparr>"
    by (simp add: csv_env_def)
  from run_returns_outcome [of ?env ?csv "default_processor working_engine None" ?table]
    x t' l
  have 3: "run_etl_pipeline ?env (default_processor working_engine None) ?csv ?table
     = \<lparr>status = ''success'', error = None,
        duration_seconds = 3, rows_processed = Some 1,
        source_path = Some ?csv, target_table = Some ?table, timestamp = 3\<rparr>"
    by (simp add: csv_env_def)
  from 1 2 3 show ?thesis by blast
qed

theorem load_failure_message_counterexample:
  "status (run_etl_pipeline (csv_env [ideal_sample] 0 3)
      (default_processor (failing_engine ''connection refused'') None)
      ''data/sample_honey_data.csv'' ''honey_quality_data'') = ''failed''
   \<and> error (run_etl_pipeline (csv_env [ideal_sample] 0 3)
      (default_processor (failing_engine ''connection refused'') None)
      ''data/sample_honey_data.csv'' ''honey_quality_data'') = None"
proof -
  have "\<not> load_data (default_processor (failing_engine ''connection refused'') None)
          td ''honey_quality_data''" for td
    by (simp add: load_data_def default_processor_def failing_engine_def)
  then show ?thesis
    unfolding run_loaded [OF extract_csv ideal_transform] by simp
qed

text \<open>
  Claim C6, as the code has it. If extraction and transformation succeed and the load
  stage fails (the engine is absent, \<open>to_sql\<close> raises, or the cache write raises), the
  run returns an outcome with status failed, the number of transformed rows, the source
  and the table; the outcome has no error entry, so the message of the load failure is
  not in it. The reported duration is the difference of the two readings of
  \<open>datetime.now()\<close>, which is naive local time: it is positive exactly when the second
  reading is later than the first, and is negative for a run that starts at 01:59:59 and
  ends at 01:00:02 after the clock has been set back one hour.
\<close>

theorem load_failure_outcome:
  assumes "extract_data env path = Inr data"
    and "transform_data p (now_processed env) data = Inr td"
    and "\<not> load_data p td t"
  shows "run_etl_pipeline env p path t =
           \<lparr>status = ''failed'', error = None,
            duration_seconds = now_end env - now_start env,
            rows_processed = Some (length td), source_path = Some path,
            target_table = Some t, timestamp = now_end env\<rparr>
     \<and> (0 < duration_seconds (run_etl_pipeline env p path t) \<longleftrightarrow> now_start env < now_end env)
     \<and> (db_engine p = None
          \<or> (\<exists>to_sql e. db_engine p = Some to_sql \<and> to_sql t td = Some e)
          \<or> (\<exists>setex e. redis_client p = Some setex
                \<and> setex (''table_metadata:'' @ t) = Some e))"
proof -
  from run_loaded [OF assms(1,2)] assms(3)
  have r: "run_etl_pipeline env p path t =
           \<lparr>status = ''failed'', error = None,
            duration_seconds = now_end env - now_start env,
            rows_processed = Some (length td), source_path = Some path,
            target_table = Some t, timestamp = now_end env\<rparr>"
    by simp
  have d: "0 < duration_seconds (run_etl_pipeline env p path t) \<longleftrightarrow> now_start env < now_end env"
    unfolding r by simp
  from assms(3) have c: "db_engine p = None
          \<or> (\<exists>to_sql e. db_engine p = Some to_sql \<and> to_sql t td = Some e)
          \<or> (\<exists>setex e. redis_client p = Some setex
                \<and> setex (''table_metadata:'' @ t) = Some e)"
    by (auto simp: load_data_def split: option.splits)
  from r d c show ?thesis by blast
qed

theorem load_failure_outcome_witness:
  "run_etl_pipeline (csv_env [ideal_sample] 1 4)
      (default_processor working_engine (failing_client ''redis timeout''))
      ''data/sample_honey_data.csv'' ''honey_quality_data''
     = \<lparr>status = ''failed'', error = None, duration_seconds = 3,
        rows_processed = Some 1, source_path = Some ''data/sample_honey_data.csv'',
        target_table = Some ''honey_quality_data'', timestamp = 4\<rparr>"
proof -
  let ?p = "default_processor working_engine (failing_client ''redis timeout'')"
  have l: "\<not> load_data ?p td ''honey_quality_data''" for td
    by (simp add: load_data_def default_processor_def working_engine_def failing_client_def)
  from load_failure_outcome [OF extract_csv ideal_transform l]
  show ?thesis by (simp add: csv_env_def)
qed

theorem load_error_not_preserved_counterexample:
  "error (run_etl_pipeline (csv_env [ideal_sample] 0 3)
      (default_processor (failing_engine ''disk full'') None)
      ''data/sample_honey_data.csv'' ''honey_quality_data'') \<noteq> Some ''disk full''
   \<and> \<not> 0 < duration_seconds (run_etl_pipeline (csv_env [ideal_sample] 7199 3602)
      (default_processor (failing_engine ''disk full'') None)
      ''data/sample_honey_data.csv'' ''honey_quality_data'')"
  unfolding run_loaded [OF extract_csv ideal_transform] by (simp add: csv_env_def)

text \<open>
  Claim C7. A run over an empty input completes with status success: when the extraction
  returns zero records, the rules have the keys the validator reads and the load step
  stores what it is given, the transformation accepts zero records, and the outcome has
  status success (not failed), no error, and \<open>rows_processed = 0\<close>, the count of the
  accepted records.
\<close>

theorem empty_input_completes:
  assumes "extract_data env path = Inr []"
    and "rules_complete (business_rules p)"
    and "load_data p [] t"
  shows "transform_data p (now_processed env) [] = Inr []
     \<and> run_etl_pipeline env p path t =
           \<lparr>status = ''success'', error = None,
            duration_seconds = now_end env - now_start env,
            rows_processed = Some 0, source_path = Some path,
            target_table = Some t, timestamp = now_end env\<rparr>
     \<and> status (run_etl_pipeline env p path t) \<noteq> ''failed''"
proof -
  have t: "transform_data p (now_processed env) [] = Inr []"
    by (rule transform_data_empty [OF assms(2)])
  from run_loaded [OF assms(1) t] assms(3)
  have r: "run_etl_pipeline env p path t =
           \<lparr>status = ''success'', error = None,
            duration_seconds = now_end env - now_start env,
            rows_processed = Some 0, source_path = Some path,
            target_table = Some t, timestamp = now_end env\<rparr>"
    by simp
  have "status (run_etl_pipeline env p path t) \<noteq> ''failed''"
    unfolding r by simp
  with t r show ?thesis by blast
qed

theorem empty_input_completes_witness:
  "run_etl_pipeline (csv_env [] 0 2) (default_processor working_engine None)
      ''data/sample_honey_data.csv'' ''honey_quality_data''
     = \<lparr>status = ''success'', error = None, duration_seconds = 2,
        rows_processed = Some 0, source_path = Some ''data/sample_honey_data.csv'',
        target_table = Some ''honey_quality_data'', timestamp = 2\<rparr>"
proof -
  have l: "load_data (default_processor working_engine None) [] ''honey_quality_data''"
    by (simp add: load_data_def default_processor_def working_engine_def)
  have e: "extract_data (csv_env [] 0 2) ''data/sample_honey_data.csv'' = Inr []"
    by (rule extract_csv)
  have c: "rules_complete (business_rules (default_processor working_engine None))"
    by (rule default_processor_complete)
  from empty_input_completes [OF e c l]
  show ?thesis by (simp add: csv_env_def)
qed

section \<open>Performance alerts\<close>

text \<open>
  Claim C8. With psutil available and both readings taken, the performance check returns
  one alert for the CPU reading exactly when it is strictly greater than its ceiling 80,
  followed by one alert for the memory reading exactly when it is strictly greater than
  its ceiling 85, and nothing else: a reading equal to its ceiling gives no alert, a
  reading above it gives exactly one alert for that check, and no event is emitted without
  a breach. The CPU check is decided the same way when the memory reading raises.
\<close>

theorem performance_alert_iff_above:
  "check_performance_alerts True (Inr cpu) (Inr mem) t1 t2 =
     (if fgt cpu (Fin 80)
      then [\<lparr>alert_type = ''performance_degradation'', severity = ''warning'',
             message = (''High CPU usage: '', cpu), alert_timestamp = t1\<rparr>]
      else [])
     @ (if fgt mem (Fin 85)
        then [\<lparr>alert_type = ''performance_degradation'', severity = ''warning'',
               message = (''High memory usage: '', mem), alert_timestamp = t2\<rparr>]
        else [])
   \<and> length (filter (\<lambda>a. fst (message a) = ''High CPU usage: '')
         (check_performance_alerts True (Inr cpu) (Inr mem) t1 t2))
       = (if fgt cpu (Fin 80) then 1 else 0)
   \<and> length (filter (\<lambda>a. fst (message a) = ''High memory usage: '')
         (check_performance_alerts True (Inr cpu) (Inr mem) t1 t2))
       = (if fgt mem (Fin 85) then 1 else 0)
   \<and> (fgt (Fin x) (Fin 80) \<longleftrightarrow> 80 < x)
   \<and> (fgt (Fin y) (Fin 85) \<longleftrightarrow> 85 < y)
   \<and> check_performance_alerts True (Inr (Fin 80)) (Inr (Fin 85)) t1 t2 = []
   \<and> check_performance_alerts True (Inr cpu) (Inl e) t1 t2 =
       (if fgt cpu (Fin 80)
        then [\<lparr>alert_type = ''performance_degradation'', severity = ''warning'',
               message = (''High CPU usage: '', cpu), alert_timestamp = t1\<rparr>]
        else [])"
  by (simp add: check_performance_alerts_def Let_def fgt_def)

theorem performance_alert_iff_above_witness:
  "check_performance_alerts True (Inr (Fin 80.1)) (Inr (Fin 85)) 10 11 =
     [\<lparr>alert_type = ''performance_degradation'', severity = ''warning'',
       message = (''High CPU usage: '', Fin 80.1), alert_timestamp = 10\<rparr>]"
proof -
  have "fgt (Fin 80.1) (Fin 80)" and "\<not> fgt (Fin 85) (Fin 85)"
    by (simp_all add: fgt_def)
  with performance_alert_iff_above [of "Fin 80.1" "Fin 85" 10 11] show ?thesis by simp
qed

end
